theory Spec2Isabelle
  imports Complex_Main "HOL-Library.Word"
begin

section \<open>JavaScript values read by the token helpers\<close>

text \<open>
  A JavaScript string is a sequence of 16-bit code units. A string of the source text is
  written \<open>lit ''...''\<close>; all its units are below 256.
\<close>

type_synonym jsstring = "16 word list"

abbreviation lit :: "string \<Rightarrow> jsstring" where
  "lit s \<equiv> map of_char s"

text \<open>
  The RBAC demo (\<^verbatim>\<open>Experiment_8/roledbased_access.tsx\<close>) reads a token's claims with
  \<^verbatim>\<open>JSON.parse(atob(payload))\<close> and compares \<^verbatim>\<open>p.exp\<close> with the clock. A JavaScript number
  is a double: the finite ones are embedded in \<open>real\<close>, the three others are written out.
  \<open>NaN\<close> is never a parsed value, it only arises from the coercion \<open>ToNumber\<close>.
\<close>

datatype number = NaN | NegInf | Finite real | PosInf

text \<open>
  A value produced by \<^verbatim>\<open>JSON.parse\<close>. An object is the list of its own properties in
  insertion order, each key once.
\<close>

datatype json =
    JNull
  | JBool bool
  | JNum number
  | JStr jsstring
  | JArr "json list"
  | JObj "(jsstring \<times> json) list"

text \<open>
  What the code throws: \<^verbatim>\<open>new Error("Invalid credentials")\<close> and
  \<^verbatim>\<open>new Error("Refresh token invalid")\<close> (with \<^verbatim>\<open>status = 401\<close>) by the mock API; the
  \<^verbatim>\<open>InvalidCharacterError\<close> of \<^verbatim>\<open>btoa\<close>; the \<^verbatim>\<open>TypeError\<close> of a comparison whose operand has
  no primitive value.
\<close>

datatype error = InvalidCredentials | RefreshTokenInvalid | InvalidCharacterError | TypeError

text \<open>
  The functions of the JavaScript platform that the source calls and does not define.
  \<open>atob\<close> and \<open>JSON_parse\<close> throw on malformed input (\<open>None\<close>). \<open>btoa\<close> is the base64 text
  of a string whose units are all below 256; on any other string the call throws, which
  \<open>btoa_call\<close> adds. \<open>StringToNumber\<close> is the coercion of a string to a number
  (\<^verbatim>\<open>Number("12")\<close>).
\<close>

record platform =
  atob :: "jsstring \<Rightarrow> jsstring option"
  btoa :: "jsstring \<Rightarrow> jsstring"
  JSON_parse :: "jsstring \<Rightarrow> json option"
  JSON_stringify :: "json \<Rightarrow> jsstring"
  StringToNumber :: "jsstring \<Rightarrow> number"

definition latin1 :: "jsstring \<Rightarrow> bool" where
  "latin1 s = list_all (\<lambda>c. c \<le> 255) s"

text \<open>\<^verbatim>\<open>btoa(s)\<close>: an \<^verbatim>\<open>InvalidCharacterError\<close> when a unit of \<open>s\<close> is above U+00FF.\<close>

definition btoa_call :: "platform \<Rightarrow> jsstring \<Rightarrow> error + jsstring" where
  "btoa_call P s = (if latin1 s then Inr (btoa P s) else Inl InvalidCharacterError)"

text \<open>\<^verbatim>\<open>!v\<close> is \<open>\<not> truthy v\<close> (ToBoolean).\<close>

fun truthy :: "json \<Rightarrow> bool" where
  "truthy JNull = False"
| "truthy (JBool b) = b"
| "truthy (JNum n) = (n \<noteq> NaN \<and> n \<noteq> Finite 0)"
| "truthy (JStr s) = (s \<noteq> [])"
| "truthy (JArr xs) = True"
| "truthy (JObj kvs) = True"

text \<open>
  Whether a value has a string form. A parsed object with no key \<^verbatim>\<open>toString\<close> inherits
  \<^verbatim>\<open>Object.prototype.toString\<close> and reads \<^verbatim>\<open>[object Object]\<close>; with that key, its own
  \<^verbatim>\<open>toString\<close> is a parsed value, not a function, \<^verbatim>\<open>valueOf\<close> gives no primitive either, and
  the conversion throws a \<^verbatim>\<open>TypeError\<close>. An array joins the string forms of its elements,
  so it has one when all of them have.
\<close>

fun has_string :: "json \<Rightarrow> bool" where
  "has_string (JObj kvs) = (map_of kvs (lit ''toString'') = None)"
| "has_string (JArr xs) = list_all has_string xs"
| "has_string v = True"

text \<open>
  The number an array converts to, through its string form: the elements joined by
  commas. The empty array gives the empty string (the number 0); a one-element array
  gives what its element gives as a string (\<^verbatim>\<open>null\<close> the empty string, a boolean \<^verbatim>\<open>true\<close>
  or \<^verbatim>\<open>false\<close>, an object \<^verbatim>\<open>[object Object]\<close>); a longer array a string with a comma, which
  is no numeral.
\<close>

fun array_number :: "platform \<Rightarrow> json list \<Rightarrow> number" where
  "array_number P [] = Finite 0"
| "array_number P [JNull] = Finite 0"
| "array_number P [JBool b] = NaN"
| "array_number P [JNum n] = n"
| "array_number P [JStr s] = StringToNumber P s"
| "array_number P [JObj kvs] = NaN"
| "array_number P [JArr xs] = array_number P xs"
| "array_number P (x # y # zs) = NaN"

text \<open>
  \<open>ToNumber\<close>, as \<^verbatim>\<open><=\<close> and \<^verbatim>\<open>>\<close> apply it to an operand that is compared with a number.
  An object or array is first converted to a string, which throws when it has none.
\<close>

fun ToNumber :: "platform \<Rightarrow> json \<Rightarrow> error + number" where
  "ToNumber P JNull = Inr (Finite 0)"
| "ToNumber P (JBool b) = Inr (Finite (if b then 1 else 0))"
| "ToNumber P (JNum n) = Inr n"
| "ToNumber P (JStr s) = Inr (StringToNumber P s)"
| "ToNumber P (JObj kvs) = (if has_string (JObj kvs) then Inr NaN else Inl TypeError)"
| "ToNumber P (JArr xs) =
     (if has_string (JArr xs) then Inr (array_number P xs) else Inl TypeError)"

text \<open>\<^verbatim>\<open>a <= b\<close> and \<^verbatim>\<open>a > b\<close> on numbers: both are false when an operand is \<open>NaN\<close>.\<close>

fun js_le :: "number \<Rightarrow> number \<Rightarrow> bool" where
  "js_le NaN b = False"
| "js_le a NaN = False"
| "js_le NegInf b = True"
| "js_le a PosInf = True"
| "js_le (Finite a) (Finite b) = (a \<le> b)"
| "js_le PosInf b = False"
| "js_le a NegInf = False"

fun js_gt :: "number \<Rightarrow> number \<Rightarrow> bool" where
  "js_gt NaN b = False"
| "js_gt a NaN = False"
| "js_gt a b = (\<not> js_le a b)"

text \<open>
  \<^verbatim>\<open>p?.exp\<close>: reading a property of a parsed value, \<open>None\<close> for \<^verbatim>\<open>undefined\<close>. \<^verbatim>\<open>null\<close> has
  no properties (the \<^verbatim>\<open>?.\<close>); a primitive or an array has none of the names read here
  (\<^verbatim>\<open>exp\<close>, \<^verbatim>\<open>roles\<close>); an object has the ones it was parsed with.
\<close>

fun get_prop :: "jsstring \<Rightarrow> json \<Rightarrow> json option" where
  "get_prop k (JObj kvs) = map_of kvs k"
| "get_prop k v = None"

text \<open>\<^verbatim>\<open>s.split(d)\<close> for a one-unit separator: never empty, \<^verbatim>\<open>"".split(".")\<close> is \<^verbatim>\<open>[""]\<close>.\<close>

fun split_on :: "'a \<Rightarrow> 'a list \<Rightarrow> 'a list list" where
  "split_on d [] = [[]]"
| "split_on d (c # cs) =
     (if c = d then [] # split_on d cs
      else (case split_on d cs of [] \<Rightarrow> [[c]] | w # ws \<Rightarrow> (c # w) # ws))"

section \<open>JWT helpers\<close>

text \<open>
  The body of the \<^verbatim>\<open>try\<close> in \<^verbatim>\<open>decodeJWT\<close>; \<open>None\<close> when it throws. With fewer than two
  segments \<^verbatim>\<open>token.split(".")[1]\<close> is \<^verbatim>\<open>undefined\<close>, and \<^verbatim>\<open>atob(undefined)\<close> throws (it
  decodes the nine characters of \<^verbatim>\<open>undefined\<close>, no base64 length).
\<close>

definition decodeJWT_try :: "platform \<Rightarrow> jsstring \<Rightarrow> json option" where
  "decodeJWT_try P token =
     (case drop 1 (split_on (of_char (CHR ''.'')) token) of
        [] \<Rightarrow> None
      | payload # rest \<Rightarrow>
          (case atob P payload of
             None \<Rightarrow> None
           | Some decoded \<Rightarrow> JSON_parse P decoded))"

text \<open>
  \<^verbatim>\<open>decodeJWT\<close>: the \<^verbatim>\<open>catch\<close> returns \<^verbatim>\<open>null\<close>. The function is the same in the RBAC demo
  and in the protected-route demo (\<^verbatim>\<open>src/unnamed/part_000\<close>).
\<close>

definition decodeJWT :: "platform \<Rightarrow> jsstring \<Rightarrow> json" where
  "decodeJWT P token = (case decodeJWT_try P token of None \<Rightarrow> JNull | Some p \<Rightarrow> p)"

text \<open>
  \<^verbatim>\<open>isExpired\<close>; \<open>now\<close> is \<^verbatim>\<open>Math.floor(Date.now() / 1000)\<close>, the clock in whole seconds.
  The comparison \<^verbatim>\<open>p.exp <= now\<close> is outside any \<^verbatim>\<open>try\<close>: what it throws, \<^verbatim>\<open>isExpired\<close>
  throws.
\<close>

definition isExpired :: "platform \<Rightarrow> int \<Rightarrow> jsstring \<Rightarrow> error + bool" where
  "isExpired P now token =
     (let p = decodeJWT P token in
      case get_prop (lit ''exp'') p of
        None \<Rightarrow> Inr True
      | Some e \<Rightarrow>
          if \<not> truthy e then Inr True
          else (case ToNumber P e of
                  Inl err \<Rightarrow> Inl err
                | Inr n \<Rightarrow> Inr (js_le n (Finite (of_int now)))))"

text \<open>
  \<^verbatim>\<open>validateToken\<close> of the protected-route demo, the other expiry test of the repository:
  \<^verbatim>\<open>if (!data) return false; return data.exp && data.exp > now\<close>. The result is what the
  caller tests, the truth value of what is returned.
\<close>

definition validateToken :: "platform \<Rightarrow> int \<Rightarrow> jsstring \<Rightarrow> error + bool" where
  "validateToken P now token =
     (let data = decodeJWT P token in
      if \<not> truthy data then Inr False
      else (case get_prop (lit ''exp'') data of
              None \<Rightarrow> Inr False
            | Some e \<Rightarrow>
                if \<not> truthy e then Inr False
                else (case ToNumber P e of
                        Inl err \<Rightarrow> Inl err
                      | Inr n \<Rightarrow> Inr (js_gt n (Finite (of_int now))))))"

section \<open>Mock API\<close>

record user_t =
  user_id :: int
  name :: jsstring
  roles :: "jsstring list"

text \<open>The object literal that \<^verbatim>\<open>MockAPI.login\<close> and \<^verbatim>\<open>MockAPI.refresh\<close> serialise.\<close>

definition claims :: "int \<Rightarrow> jsstring \<Rightarrow> jsstring list \<Rightarrow> int \<Rightarrow> json" where
  "claims sub nm rs expiry =
     JObj [(lit ''sub'', JNum (Finite (of_int sub))), (lit ''name'', JStr nm),
           (lit ''roles'', JArr (map JStr rs)), (lit ''exp'', JNum (Finite (of_int expiry)))]"

text \<open>
  \<^verbatim>\<open>`header.${payload}.signature`\<close> with \<^verbatim>\<open>payload = btoa(JSON.stringify(c))\<close>; it throws when
  \<^verbatim>\<open>btoa\<close> does.
\<close>

definition make_token :: "platform \<Rightarrow> json \<Rightarrow> error + jsstring" where
  "make_token P c =
     (case btoa_call P (JSON_stringify P c) of
        Inl e \<Rightarrow> Inl e
      | Inr payload \<Rightarrow> Inr (lit ''header.'' @ payload @ lit ''.signature''))"

text \<open>
  \<^verbatim>\<open>MockAPI.login\<close>. \<open>password\<close> is \<open>None\<close> when the caller passes none; \<^verbatim>\<open>!password\<close> also
  holds of the empty string. \<open>rnd\<close> is what \<^verbatim>\<open>cryptoRandom()\<close> returns.
\<close>

definition MockAPI_login ::
    "platform \<Rightarrow> int \<Rightarrow> jsstring \<Rightarrow> jsstring \<Rightarrow> jsstring option \<Rightarrow>
     error + (user_t \<times> jsstring \<times> jsstring)" where
  "MockAPI_login P now rnd username password =
     (case password of
        None \<Rightarrow> Inl InvalidCredentials
      | Some pw \<Rightarrow>
          if pw = [] \<or> length pw < 6 then Inl InvalidCredentials
          else
            let rs = (if username = lit ''admin'' then [lit ''ADMIN'', lit ''USER'']
                      else if username = lit ''mod'' \<or> username = lit ''moderator''
                      then [lit ''MODERATOR'', lit ''USER'']
                      else [lit ''USER'']);
                u = \<lparr>user_id = 1, name = username, roles = rs\<rparr>;
                expiry = now + 60
            in case make_token P (claims (user_id u) (name u) rs expiry) of
                 Inl e \<Rightarrow> Inl e
               | Inr accessToken \<Rightarrow> Inr (u, accessToken, rnd))"

text \<open>\<^verbatim>\<open>MockAPI.refresh\<close>: \<^verbatim>\<open>!refreshToken || refreshToken.startsWith("x")\<close> rejects.\<close>

definition refresh_rejects :: "jsstring option \<Rightarrow> bool" where
  "refresh_rejects refreshToken =
     (case refreshToken of
        None \<Rightarrow> True
      | Some t \<Rightarrow> t = [] \<or> take 1 t = lit ''x'')"

definition MockAPI_refresh :: "platform \<Rightarrow> int \<Rightarrow> jsstring option \<Rightarrow> error + jsstring" where
  "MockAPI_refresh P now refreshToken =
     (if refresh_rejects refreshToken then Inl RefreshTokenInvalid
      else make_token P (claims 1 (lit ''demo'') [lit ''USER''] (now + 60)))"

text \<open>\<^verbatim>\<open>MockAPI.getSecret\<close> always answers.\<close>

definition MockAPI_getSecret :: "jsstring \<Rightarrow> json" where
  "MockAPI_getSecret resource =
     JObj [(lit ''ok'', JBool True),
           (lit ''data'', JStr (lit ''Top secret payload for '' @ resource))]"

text \<open>
  What the platform guarantees of a value \<open>v\<close> that is serialised into a token: its JSON
  text has no unit above U+00FF (so \<^verbatim>\<open>btoa\<close> takes it), \<^verbatim>\<open>JSON.parse\<close> inverts
  \<^verbatim>\<open>JSON.stringify\<close>, \<^verbatim>\<open>atob\<close> inverts \<^verbatim>\<open>btoa\<close>, and base64 text has no dot.
\<close>

definition codec_ok :: "platform \<Rightarrow> json \<Rightarrow> bool" where
  "codec_ok P v =
     (latin1 (JSON_stringify P v)
      \<and> JSON_parse P (JSON_stringify P v) = Some v
      \<and> atob P (btoa P (JSON_stringify P v)) = Some (JSON_stringify P v)
      \<and> of_char (CHR ''.'') \<notin> set (btoa P (JSON_stringify P v)))"

section \<open>The state of \<^verbatim>\<open>AuthProvider\<close>\<close>

text \<open>
  What is stored under a key of \<^verbatim>\<open>localStorage\<close>: the JSON text of
  \<^verbatim>\<open>{user, accessToken, refreshToken}\<close>, kept as the triple it serialises.
\<close>

type_synonym snapshot = "user_t option \<times> jsstring option \<times> jsstring option"

text \<open>
  A trace kept beside the program's state: the calls of the mock API and the entries into
  \<^verbatim>\<open>fetchWithAuth\<close> (with the token passed), in order.
\<close>

datatype call =
    LoginCall jsstring
  | RefreshCall "jsstring option"
  | GetSecretCall jsstring
  | FetchWithAuth jsstring "jsstring option"

fun is_refresh :: "call \<Rightarrow> bool" where
  "is_refresh (RefreshCall t) = True"
| "is_refresh c = False"

fun is_getSecret :: "call \<Rightarrow> bool" where
  "is_getSecret (GetSecretCall r) = True"
| "is_getSecret c = False"

fun is_fetch :: "call \<Rightarrow> bool" where
  "is_fetch (FetchWithAuth url t) = True"
| "is_fetch c = False"

record st =
  user :: "user_t option"
  accessToken :: "jsstring option"
  refreshRef :: "jsstring option"
  loading :: bool
  localStorage :: "jsstring \<Rightarrow> snapshot option"
  calls :: "call list"

text \<open>\<^verbatim>\<open>login\<close>: when \<^verbatim>\<open>MockAPI.login\<close> throws, the \<^verbatim>\<open>await\<close> rethrows before any setter runs.\<close>

definition login ::
    "platform \<Rightarrow> int \<Rightarrow> jsstring \<Rightarrow> jsstring \<Rightarrow> jsstring option \<Rightarrow> st \<Rightarrow>
     (error + user_t) \<times> st" where
  "login P now rnd username password s =
     (let s1 = s\<lparr>calls := calls s @ [LoginCall username]\<rparr> in
      case MockAPI_login P now rnd username password of
        Inl e \<Rightarrow> (Inl e, s1)
      | Inr (u, tok, rt) \<Rightarrow>
          (Inr u, s1\<lparr>user := Some u, accessToken := Some tok, refreshRef := Some rt\<rparr>))"

definition logout :: "st \<Rightarrow> st" where
  "logout s =
     s\<lparr>user := None, accessToken := None, refreshRef := None,
       localStorage := (localStorage s)(lit ''demo_auth'' := None)\<rparr>"

text \<open>\<^verbatim>\<open>tryRefresh\<close>: whatever \<^verbatim>\<open>MockAPI.refresh\<close> throws is caught and gives \<^verbatim>\<open>false\<close>.\<close>

definition tryRefresh :: "platform \<Rightarrow> int \<Rightarrow> st \<Rightarrow> bool \<times> st" where
  "tryRefresh P now s =
     (let s1 = s\<lparr>calls := calls s @ [RefreshCall (refreshRef s)]\<rparr> in
      case MockAPI_refresh P now (refreshRef s) of
        Inl e \<Rightarrow> (False, s1)
      | Inr tok \<Rightarrow> (True, s1\<lparr>accessToken := Some tok\<rparr>))"

text \<open>\<^verbatim>\<open>hasAnyRole\<close>; the argument is \<open>None\<close> when \<^verbatim>\<open>roles\<close> is \<^verbatim>\<open>undefined\<close>.\<close>

definition hasAnyRole :: "st \<Rightarrow> jsstring list option \<Rightarrow> bool" where
  "hasAnyRole s required =
     (case required of
        None \<Rightarrow> True
      | Some rs \<Rightarrow>
          if length rs = 0 then True
          else
            let current = (case user s of None \<Rightarrow> [] | Some u \<Rightarrow> roles u)
            in list_ex (\<lambda>r. r \<in> set current) rs)"

text \<open>
  The persist effect, \<^verbatim>\<open>useEffect(..., [user, accessToken])\<close>: it writes the snapshot of the
  state it is rendered with.
\<close>

definition persist_effect :: "st \<Rightarrow> st" where
  "persist_effect s =
     s\<lparr>localStorage :=
         (localStorage s)(lit ''demo_auth'' \<mapsto> (user s, accessToken s, refreshRef s))\<rparr>"

text \<open>
  What React does once a handler has returned: when a setter changed \<^verbatim>\<open>user\<close> or
  \<^verbatim>\<open>accessToken\<close> the provider renders again and the effect, whose dependencies those are,
  runs; when both are what they were nothing renders and no effect runs. \<open>prev\<close> is the
  state the handler started from.
\<close>

definition commit :: "st \<Rightarrow> st \<Rightarrow> st" where
  "commit prev s =
     (if user s = user prev \<and> accessToken s = accessToken prev then s else persist_effect s)"

text \<open>A click on Logout: the handler, then React's commit.\<close>

definition logout_click :: "st \<Rightarrow> st" where
  "logout_click s = commit s (logout s)"

section \<open>Request helper\<close>

record response =
  status :: nat
  body :: json

text \<open>
  \<^verbatim>\<open>!token || isExpired(token)\<close>, the test of \<^verbatim>\<open>fetchWithAuth\<close> and of \<^verbatim>\<open>RequireAuth\<close>;
  \<^verbatim>\<open>!token\<close> holds of \<^verbatim>\<open>null\<close> and of the empty string, and then \<^verbatim>\<open>isExpired\<close> is not
  called. \<open>now\<close> is the clock that \<^verbatim>\<open>isExpired\<close> reads.
\<close>

definition absent_or_expired :: "platform \<Rightarrow> int \<Rightarrow> jsstring option \<Rightarrow> error + bool" where
  "absent_or_expired P now token =
     (case token of
        None \<Rightarrow> Inr True
      | Some t \<Rightarrow> if t = [] then Inr True else isExpired P now t)"

text \<open>The response \<^verbatim>\<open>{ status: 401, json: async () => ({ error: "Unauthorized" }) }\<close>.\<close>

definition unauthorized :: response where
  "unauthorized = \<lparr>status = 401, body = JObj [(lit ''error'', JStr (lit ''Unauthorized''))]\<rparr>"

text \<open>\<^verbatim>\<open>fetchWithAuth\<close>; what the test throws rejects the returned promise.\<close>

definition fetchWithAuth ::
    "platform \<Rightarrow> int \<Rightarrow> jsstring \<Rightarrow> jsstring option \<Rightarrow> st \<Rightarrow> (error + response) \<times> st" where
  "fetchWithAuth P now url token s =
     (let s0 = s\<lparr>calls := calls s @ [FetchWithAuth url token]\<rparr> in
      case absent_or_expired P now token of
        Inl e \<Rightarrow> (Inl e, s0)
      | Inr refused \<Rightarrow>
          if refused
          then (Inr unauthorized, s0)
          else (Inr \<lparr>status = 200, body = MockAPI_getSecret url\<rparr>,
                s0\<lparr>calls := calls s0 @ [GetSecretCall url]\<rparr>))"

text \<open>\<^verbatim>\<open>onUnauthorized?.()\<close>: the callback is optional.\<close>

definition call_opt :: "(st \<Rightarrow> st) option \<Rightarrow> st \<Rightarrow> st" where
  "call_opt f s = (case f of None \<Rightarrow> s | Some g \<Rightarrow> g s)"

text \<open>
  \<^verbatim>\<open>createHttp({getAccessToken, onUnauthorized, tryRefresh}).get(url)\<close>. The clock is read
  up to three times: \<open>t1\<close> by the first \<^verbatim>\<open>fetchWithAuth\<close>, \<open>t2\<close> by the refresh, \<open>t3\<close> by
  the second \<^verbatim>\<open>fetchWithAuth\<close>. A rejected \<^verbatim>\<open>fetchWithAuth\<close> rejects \<^verbatim>\<open>get\<close> at its \<^verbatim>\<open>await\<close>.
\<close>

definition http_get ::
    "platform \<Rightarrow> (st \<Rightarrow> jsstring option) \<Rightarrow> (st \<Rightarrow> st) option \<Rightarrow> (int \<Rightarrow> st \<Rightarrow> bool \<times> st) \<Rightarrow>
     int \<Rightarrow> int \<Rightarrow> int \<Rightarrow> jsstring \<Rightarrow> st \<Rightarrow> (error + response) \<times> st" where
  "http_get P getAccessToken onUnauthorized refresh t1 t2 t3 url s =
     (let token = getAccessToken s in
      case fetchWithAuth P t1 url token s of
        (Inl e, s1) \<Rightarrow> (Inl e, s1)
      | (Inr res1, s1) \<Rightarrow>
          if status res1 \<noteq> 401 then (Inr res1, s1)
          else
            let (refreshed, s2) = refresh t2 s1
            in if \<not> refreshed then (Inr res1, call_opt onUnauthorized s2)
               else
                 let token2 = getAccessToken s2 in
                 case fetchWithAuth P t3 url token2 s2 of
                   (Inl e, s3) \<Rightarrow> (Inl e, s3)
                 | (Inr res2, s3) \<Rightarrow>
                     (Inr res2, if status res2 = 401 then call_opt onUnauthorized s3 else s3))"

text \<open>
  The \<^verbatim>\<open>http\<close> of \<^verbatim>\<open>AuthProvider\<close>:
  \<^verbatim>\<open>createHttp({ getAccessToken: () => accessToken, onUnauthorized: logout, tryRefresh })\<close>.
  \<^verbatim>\<open>accessToken\<close> is the constant of the render that built this \<^verbatim>\<open>http\<close>: the arrow function
  returns it whatever \<^verbatim>\<open>setAccessToken\<close> has stored since, so both reads inside one \<^verbatim>\<open>get\<close>
  give the token of the state the call started in.
\<close>

definition provider_get ::
    "platform \<Rightarrow> int \<Rightarrow> int \<Rightarrow> int \<Rightarrow> jsstring \<Rightarrow> st \<Rightarrow> (error + response) \<times> st" where
  "provider_get P t1 t2 t3 url s =
     http_get P (\<lambda>cur. accessToken s) (Some logout) (tryRefresh P) t1 t2 t3 url s"

text \<open>
  The state in which the retry of \<^verbatim>\<open>get\<close> runs, when the first attempt was refused and the
  refresh returned the access token \<open>tok\<close>: the token is stored, the attempt and the
  refresh are in the trace. \<open>g\<close> is \<^verbatim>\<open>getAccessToken\<close>.
\<close>

definition refreshed :: "(st \<Rightarrow> jsstring option) \<Rightarrow> jsstring \<Rightarrow> jsstring \<Rightarrow> st \<Rightarrow> st" where
  "refreshed g url tok s =
     s\<lparr>calls := calls s @ [FetchWithAuth url (g s), RefreshCall (refreshRef s)],
       accessToken := Some tok\<rparr>"

section \<open>Route guards\<close>

text \<open>
  What a guard renders: \<^verbatim>\<open><ScreenMsg>\<close> with its text, \<^verbatim>\<open><Navigate to=... state=...>\<close> (a
  redirect, with the location it remembers in \<^verbatim>\<open>state.from\<close>, if any), or \<^verbatim>\<open><Outlet />\<close>
  (the guarded route is rendered).
\<close>

datatype view = ScreenMsg jsstring | Navigate jsstring "jsstring option" | Outlet

text \<open>The text of the loading screen; its last character is U+2026.\<close>

definition loading_msg :: jsstring where
  "loading_msg = lit ''Loading session'' @ [0x2026]"

text \<open>
  \<^verbatim>\<open>RequireAuth\<close>; \<open>location\<close> is what \<^verbatim>\<open>useLocation()\<close> returns. \<^verbatim>\<open>isExpired\<close> is reached only
  when the session is loaded and a user is present; what it throws, the render throws.
\<close>

definition RequireAuth :: "platform \<Rightarrow> int \<Rightarrow> jsstring \<Rightarrow> st \<Rightarrow> error + view" where
  "RequireAuth P now location s =
     (if loading s then Inr (ScreenMsg loading_msg)
      else if user s = None then Inr (Navigate (lit ''/login'') (Some location))
      else (case absent_or_expired P now (accessToken s) of
              Inl e \<Rightarrow> Inl e
            | Inr refused \<Rightarrow>
                if refused then Inr (Navigate (lit ''/login'') (Some location))
                else Inr Outlet))"

definition RequireRoles :: "jsstring list option \<Rightarrow> st \<Rightarrow> view" where
  "RequireRoles rs s = (if \<not> hasAnyRole s rs then Navigate (lit ''/403'') None else Outlet)"

section \<open>Concrete tokens and sessions\<close>

text \<open>
  The platform on the few strings the runs below need: payloads with their base64 forms
  and the values they parse to. The one string that is coerced to a number below,
  \<^verbatim>\<open>never\<close>, is no numeral: \<^verbatim>\<open>Number("never")\<close> is \<open>NaN\<close>. \<open>wide_name\<close> is a username of one
  character, U+674E; \<^verbatim>\<open>JSON.stringify\<close> writes such a character as it is.
\<close>

definition demo_claims_text :: jsstring where
  "demo_claims_text =
     lit ''{\"sub\":1,\"name\":\"demo\",\"roles\":[\"USER\"],\"exp\":3060}''"

definition demo_claims_b64 :: jsstring where
  "demo_claims_b64 =
     lit ''eyJzdWIiOjEsIm5hbWUiOiJkZW1vIiwicm9sZXMiOlsiVVNFUiJdLCJleHAiOjMwNjB9''"

text \<open>The access token that \<^verbatim>\<open>MockAPI.refresh\<close> issues at second 3000.\<close>

definition demo_token :: jsstring where
  "demo_token = lit ''header.'' @ demo_claims_b64 @ lit ''.signature''"

definition wide_name :: jsstring where
  "wide_name = [0x674E]"

definition wide_claims_text :: jsstring where
  "wide_claims_text =
     lit ''{\"sub\":1,\"name\":\"'' @ wide_name @ lit ''\",\"roles\":[\"USER\"],\"exp\":1060}''"

definition sample_platform :: platform where
  "sample_platform =
     \<lparr>atob = map_of
        [(lit ''eyJleHAiOjIwMDB9'', lit ''{\"exp\":2000}''),
         (lit ''eyJleHAiOiJuZXZlciJ9'', lit ''{\"exp\":\"never\"}''),
         (demo_claims_b64, demo_claims_text)],
      btoa = (\<lambda>s. if s = demo_claims_text then demo_claims_b64 else []),
      JSON_parse = map_of
        [(lit ''{\"exp\":2000}'', JObj [(lit ''exp'', JNum (Finite 2000))]),
         (lit ''{\"exp\":\"never\"}'', JObj [(lit ''exp'', JStr (lit ''never''))]),
         (demo_claims_text, claims 1 (lit ''demo'') [lit ''USER''] 3060)],
      JSON_stringify =
        (\<lambda>v. if v = claims 1 (lit ''demo'') [lit ''USER''] 3060 then demo_claims_text
             else if v = claims 1 wide_name [lit ''USER''] 1060 then wide_claims_text
             else []),
      StringToNumber = (\<lambda>s. NaN)\<rparr>"

text \<open>A token that expires at second 2000, and one whose \<^verbatim>\<open>exp\<close> is the string \<^verbatim>\<open>never\<close>.\<close>

definition token_2000 :: jsstring where
  "token_2000 = lit ''header.eyJleHAiOjIwMDB9.signature''"

definition token_never :: jsstring where
  "token_never = lit ''header.eyJleHAiOiJuZXZlciJ9.signature''"

definition admin_user :: user_t where
  "admin_user = \<lparr>user_id = 1, name = lit ''admin'', roles = [lit ''ADMIN'', lit ''USER'']\<rparr>"

text \<open>
  A session after \<^verbatim>\<open>admin\<close> has logged in: the snapshot is stored, the access token runs
  until second 2000.
\<close>

definition admin_session :: st where
  "admin_session =
     \<lparr>user = Some admin_user, accessToken = Some token_2000, refreshRef = Some (lit ''r1''),
      loading = False,
      localStorage =
        [lit ''demo_auth'' \<mapsto> (Some admin_user, Some token_2000, Some (lit ''r1''))],
      calls = []\<rparr>"

text \<open>The state of the first render: nothing restored yet, \<^verbatim>\<open>loading\<close> still true.\<close>

definition initial_session :: st where
  "initial_session =
     \<lparr>user = None, accessToken = None, refreshRef = None, loading = True,
      localStorage = Map.empty, calls = []\<rparr>"

section \<open>Role membership\<close>

lemma hasAnyRole_some:
  "hasAnyRole s (Some R) =
     (R = [] \<or> (\<exists>u. user s = Some u \<and> set (roles u) \<inter> set R \<noteq> {}))"
  by (cases "user s") (auto simp: hasAnyRole_def list_ex_iff)

text \<open>
  C8. \<^verbatim>\<open>hasAnyRole\<close> is true of the empty list of required roles whatever the session holds,
  also with no user; with a user and a non-empty list it is true exactly when one of the
  user's roles is in the list; with no user and a non-empty list it is false. The function is
  total: there is no error value in its result.
\<close>

theorem hasAnyRole_spec:
  "hasAnyRole s (Some [])
   \<and> (user s = Some u \<and> R \<noteq> [] \<longrightarrow>
        hasAnyRole s (Some R) = (set (roles u) \<inter> set R \<noteq> {}))
   \<and> (user s = None \<and> R \<noteq> [] \<longrightarrow> \<not> hasAnyRole s (Some R))"
  by (auto simp: hasAnyRole_some)

theorem hasAnyRole_spec_witness:
  "hasAnyRole initial_session (Some [])
   \<and> hasAnyRole admin_session (Some [lit ''MODERATOR'', lit ''ADMIN''])
   \<and> \<not> hasAnyRole admin_session (Some [lit ''MODERATOR''])
   \<and> \<not> hasAnyRole initial_session (Some [lit ''USER''])"
  using hasAnyRole_spec [of initial_session admin_user "[lit ''USER'']"]
        hasAnyRole_spec [of admin_session admin_user "[lit ''MODERATOR'', lit ''ADMIN'']"]
        hasAnyRole_spec [of admin_session admin_user "[lit ''MODERATOR'']"]
  by (simp add: initial_session_def admin_session_def admin_user_def)

section \<open>Login\<close>

lemma MockAPI_login_rejects:
  assumes "password = None \<or> (\<exists>pw. password = Some pw \<and> length pw < 6)"
  shows "MockAPI_login P now rnd username password = Inl InvalidCredentials"
  using assms unfolding MockAPI_login_def by (auto split del: if_split)

text \<open>
  With a password of at least 6 units, \<^verbatim>\<open>MockAPI.login\<close> does what \<^verbatim>\<open>btoa\<close> does with the
  payload: the password is not read again.
\<close>

lemma MockAPI_login_accepts:
  assumes "6 \<le> length pw"
  shows "MockAPI_login P now rnd username (Some pw) =
           (case make_token P (claims 1 username
                  (if username = lit ''admin'' then [lit ''ADMIN'', lit ''USER'']
                   else if username = lit ''mod'' \<or> username = lit ''moderator''
                   then [lit ''MODERATOR'', lit ''USER'']
                   else [lit ''USER'']) (now + 60)) of
              Inl e \<Rightarrow> Inl e
            | Inr tok \<Rightarrow>
                Inr (\<lparr>user_id = 1, name = username,
                      roles = (if username = lit ''admin'' then [lit ''ADMIN'', lit ''USER'']
                               else if username = lit ''mod'' \<or> username = lit ''moderator''
                               then [lit ''MODERATOR'', lit ''USER'']
                               else [lit ''USER''])\<rparr>, tok, rnd))"
proof -
  from assms have "pw \<noteq> []" and "\<not> length pw < 6" by auto
  then show ?thesis
    unfolding MockAPI_login_def Let_def by (simp split del: if_split cong: if_cong sum.case_cong)
qed

lemma MockAPI_login_password_free:
  assumes "6 \<le> length p1" and "6 \<le> length p2"
  shows "MockAPI_login P now rnd username (Some p1) = MockAPI_login P now rnd username (Some p2)"
  by (simp only: MockAPI_login_accepts [OF assms(1)] MockAPI_login_accepts [OF assms(2)])

lemma make_token_wide:
  "\<not> latin1 (JSON_stringify P c) \<Longrightarrow> make_token P c = Inl InvalidCharacterError"
  by (simp add: make_token_def btoa_call_def)

text \<open>
  C6. When the password is absent or has fewer than 6 characters, \<^verbatim>\<open>login\<close> fails with the
  invalid-credentials error, which is the result the caller gets; \<^verbatim>\<open>user\<close>, \<^verbatim>\<open>accessToken\<close>
  and the refresh token are what they were, as is the rest of the state, and the mock API
  has been called once: nothing was retried.
\<close>

theorem login_rejected:
  assumes "password = None \<or> (\<exists>pw. password = Some pw \<and> length pw < 6)"
  shows "fst (login P now rnd username password s) = Inl InvalidCredentials
       \<and> user (snd (login P now rnd username password s)) = user s
       \<and> accessToken (snd (login P now rnd username password s)) = accessToken s
       \<and> refreshRef (snd (login P now rnd username password s)) = refreshRef s
       \<and> snd (login P now rnd username password s) =
           s\<lparr>calls := calls s @ [LoginCall username]\<rparr>"
  by (simp add: login_def MockAPI_login_rejects [OF assms])

theorem login_rejected_witness:
  "login sample_platform 1000 (lit ''r1'') (lit ''admin'') (Some (lit ''12345'')) admin_session =
     (Inl InvalidCredentials, admin_session\<lparr>calls := [LoginCall (lit ''admin'')]\<rparr>)
   \<and> login sample_platform 1000 (lit ''r1'') (lit ''admin'') None admin_session =
     (Inl InvalidCredentials, admin_session\<lparr>calls := [LoginCall (lit ''admin'')]\<rparr>)"
  using login_rejected [of "Some (lit ''12345'')" sample_platform 1000 "lit ''r1''" "lit ''admin''"
          admin_session]
        login_rejected [of None sample_platform 1000 "lit ''r1''" "lit ''admin''" admin_session]
  by (simp add: admin_session_def prod_eq_iff)

text \<open>
  For a username whose payload \<^verbatim>\<open>btoa\<close> takes, \<^verbatim>\<open>MockAPI.login\<close> returns the user record
  the username alone selects, whatever the password of at least 6 units.
\<close>

lemma MockAPI_login_by_username:
  assumes "6 \<le> length pw"
    and "latin1 (JSON_stringify P (claims 1 username
           (if username = lit ''admin'' then [lit ''ADMIN'', lit ''USER'']
            else if username = lit ''mod'' \<or> username = lit ''moderator''
            then [lit ''MODERATOR'', lit ''USER'']
            else [lit ''USER'']) (now + 60)))"
  shows "\<exists>tok. MockAPI_login P now rnd username (Some pw) =
           Inr (\<lparr>user_id = 1, name = username,
                 roles = (if username = lit ''admin'' then [lit ''ADMIN'', lit ''USER'']
                          else if username = lit ''mod'' \<or> username = lit ''moderator''
                          then [lit ''MODERATOR'', lit ''USER'']
                          else [lit ''USER''])\<rparr>, tok, rnd)"
  using assms(2)
  by (simp only: MockAPI_login_accepts [OF assms(1)] make_token_def btoa_call_def)
     (simp split del: if_split)

text \<open>
  C10, on the code: \<^verbatim>\<open>MockAPI.login\<close> passes \<^verbatim>\<open>JSON.stringify({..., name: username, ...})\<close>
  to \<^verbatim>\<open>btoa\<close>, which throws on a character above U+00FF. For the username of the one
  character U+674E and the passwords \<^verbatim>\<open>secret123\<close> and \<^verbatim>\<open>hunter22\<close> the call throws an
  \<^verbatim>\<open>InvalidCharacterError\<close> and returns no user record; \<^verbatim>\<open>login\<close> rethrows and the session
  stays empty.
\<close>

theorem MockAPI_login_wide_username:
  "MockAPI_login sample_platform 1000 (lit ''r1'') wide_name (Some (lit ''secret123'')) =
     Inl InvalidCharacterError
   \<and> MockAPI_login sample_platform 1000 (lit ''r2'') wide_name (Some (lit ''hunter22'')) =
     Inl InvalidCharacterError
   \<and> fst (login sample_platform 1000 (lit ''r1'') wide_name (Some (lit ''secret123''))
            initial_session) = Inl InvalidCharacterError
   \<and> user (snd (login sample_platform 1000 (lit ''r1'') wide_name (Some (lit ''secret123''))
                  initial_session)) = None"
proof -
  have w: "wide_name \<noteq> lit ''admin''" "wide_name \<noteq> lit ''mod''" "wide_name \<noteq> lit ''moderator''"
    by (simp_all add: wide_name_def)
  have t: "JSON_stringify sample_platform (claims 1 wide_name [lit ''USER''] (1000 + 60)) =
             wide_claims_text"
    by (simp add: sample_platform_def claims_def wide_name_def)
  have n: "\<not> latin1 wide_claims_text"
    by (simp add: latin1_def wide_claims_text_def wide_name_def)
  have m: "make_token sample_platform (claims 1 wide_name [lit ''USER''] (1000 + 60)) =
             Inl InvalidCharacterError"
    by (rule make_token_wide) (simp only: t n not_False_eq_True)
  have l: "MockAPI_login sample_platform 1000 rnd wide_name (Some pw) = Inl InvalidCharacterError"
    if "6 \<le> length pw" for rnd pw
    by (simp only: MockAPI_login_accepts [OF that] w if_False m sum.case simp_thms)
  have a: "MockAPI_login sample_platform 1000 (lit ''r1'') wide_name (Some (lit ''secret123'')) =
             Inl InvalidCharacterError"
    by (rule l) simp
  have b: "MockAPI_login sample_platform 1000 (lit ''r2'') wide_name (Some (lit ''hunter22'')) =
             Inl InvalidCharacterError"
    by (rule l) simp
  show ?thesis
    by (simp only: a b login_def Let_def sum.case fst_conv snd_conv simp_thms)
       (simp add: initial_session_def)
qed

section \<open>Refresh\<close>

text \<open>
  C5. When the mock API accepts the refresh token, \<^verbatim>\<open>tryRefresh\<close> returns true and the state
  differs from the one before in \<^verbatim>\<open>accessToken\<close> only (and in the record of calls): \<^verbatim>\<open>user\<close>
  and the refresh token are the same. When the mock API throws, \<^verbatim>\<open>tryRefresh\<close> returns
  false and no field of the session has changed.
\<close>

theorem tryRefresh_frame:
  "(MockAPI_refresh P now (refreshRef s) = Inr tok \<longrightarrow>
      fst (tryRefresh P now s) = True
      \<and> accessToken (snd (tryRefresh P now s)) = Some tok
      \<and> user (snd (tryRefresh P now s)) = user s
      \<and> refreshRef (snd (tryRefresh P now s)) = refreshRef s
      \<and> snd (tryRefresh P now s) =
          s\<lparr>accessToken := Some tok, calls := calls s @ [RefreshCall (refreshRef s)]\<rparr>)
   \<and> (MockAPI_refresh P now (refreshRef s) = Inl e \<longrightarrow>
      tryRefresh P now s = (False, s\<lparr>calls := calls s @ [RefreshCall (refreshRef s)]\<rparr>))"
  by (simp add: tryRefresh_def)

lemma demo_text_latin1: "latin1 demo_claims_text"
  by (simp add: latin1_def demo_claims_text_def)

lemma sample_refresh:
  "\<not> refresh_rejects rt \<Longrightarrow>
     MockAPI_refresh sample_platform 3000 rt = Inr demo_token"
proof -
  assume r: "\<not> refresh_rejects rt"
  have t: "JSON_stringify sample_platform (claims 1 (lit ''demo'') [lit ''USER''] (3000 + 60)) =
             demo_claims_text"
    by (simp add: sample_platform_def)
  have b: "btoa sample_platform demo_claims_text = demo_claims_b64"
    by (simp add: sample_platform_def)
  show ?thesis
    using r by (simp only: MockAPI_refresh_def if_False make_token_def t btoa_call_def
        demo_text_latin1 if_True b sum.case demo_token_def)
qed

theorem tryRefresh_frame_witness:
  "MockAPI_refresh sample_platform 3000 (refreshRef admin_session) =
     Inr (demo_token)
   \<and> tryRefresh sample_platform 3000 admin_session =
       (True, admin_session\<lparr>accessToken := Some (demo_token),
                            calls := [RefreshCall (Some (lit ''r1''))]\<rparr>)
   \<and> MockAPI_refresh sample_platform 3000
       (refreshRef (admin_session\<lparr>refreshRef := Some (lit ''x1'')\<rparr>)) = Inl RefreshTokenInvalid
   \<and> tryRefresh sample_platform 3000 (admin_session\<lparr>refreshRef := Some (lit ''x1'')\<rparr>) =
       (False, admin_session\<lparr>refreshRef := Some (lit ''x1''),
                             calls := [RefreshCall (Some (lit ''x1''))]\<rparr>)"
proof -
  have ok: "MockAPI_refresh sample_platform 3000 (refreshRef admin_session) =
              Inr (demo_token)"
    by (rule sample_refresh) (simp add: refresh_rejects_def admin_session_def)
  have bad: "MockAPI_refresh sample_platform 3000
               (refreshRef (admin_session\<lparr>refreshRef := Some (lit ''x1'')\<rparr>)) = Inl RefreshTokenInvalid"
    by (simp add: MockAPI_refresh_def refresh_rejects_def)
  show ?thesis
    using ok bad
      tryRefresh_frame [of sample_platform 3000 admin_session
        "demo_token" RefreshTokenInvalid]
      tryRefresh_frame [of sample_platform 3000 "admin_session\<lparr>refreshRef := Some (lit ''x1'')\<rparr>"
        "[]" RefreshTokenInvalid]
    by (simp add: admin_session_def prod_eq_iff)
qed

section \<open>The request helper\<close>

text \<open>
  The theorems of this section are about \<^verbatim>\<open>get\<close> with the \<^verbatim>\<open>logout\<close> and \<^verbatim>\<open>tryRefresh\<close> of
  \<^verbatim>\<open>AuthProvider\<close> and any \<^verbatim>\<open>getAccessToken\<close> \<open>g\<close>; \<open>provider_get\<close> is the case where \<open>g\<close>
  returns the token of the state the call starts in. A token that is expired stays
  expired when the clock advances.
\<close>

lemma js_le_mono: "js_le n (Finite (of_int t1)) \<Longrightarrow> t1 \<le> t3 \<Longrightarrow> js_le n (Finite (of_int t3))"
  by (cases n) auto

lemma isExpired_mono: "isExpired P t1 tok = Inr True \<Longrightarrow> t1 \<le> t3 \<Longrightarrow> isExpired P t3 tok = Inr True"
  by (auto simp: isExpired_def Let_def split: option.splits if_splits sum.splits intro: js_le_mono)

lemma absent_or_expired_mono:
  "absent_or_expired P t1 tok = Inr True \<Longrightarrow> t1 \<le> t3 \<Longrightarrow> absent_or_expired P t3 tok = Inr True"
  by (auto simp: absent_or_expired_def split: option.splits if_splits intro: isExpired_mono)

lemma status_unauthorized [simp]: "status unauthorized = 401"
  by (simp add: unauthorized_def)

lemma refresh_rejects_fails:
  "refresh_rejects rt \<Longrightarrow> MockAPI_refresh P now rt = Inl RefreshTokenInvalid"
  by (simp add: MockAPI_refresh_def)

lemma http_get_raises:
  assumes "absent_or_expired P t1 (g s) = Inl e"
  shows "http_get P g (Some logout) (tryRefresh P) t1 t2 t3 url s =
           (Inl e, s\<lparr>calls := calls s @ [FetchWithAuth url (g s)]\<rparr>)"
  using assms by (simp add: http_get_def fetchWithAuth_def Let_def)

lemma http_get_valid:
  assumes "absent_or_expired P t1 (g s) = Inr False"
  shows "http_get P g (Some logout) (tryRefresh P) t1 t2 t3 url s =
           (Inr \<lparr>status = 200, body = MockAPI_getSecret url\<rparr>,
            s\<lparr>calls := calls s @ [FetchWithAuth url (g s), GetSecretCall url]\<rparr>)"
  using assms by (simp add: http_get_def fetchWithAuth_def Let_def)

lemma http_get_refresh_failed:
  assumes "absent_or_expired P t1 (g s) = Inr True"
    and "MockAPI_refresh P t2 (refreshRef s) = Inl e"
  shows "http_get P g (Some logout) (tryRefresh P) t1 t2 t3 url s =
           (Inr unauthorized,
            logout (s\<lparr>calls := calls s @ [FetchWithAuth url (g s), RefreshCall (refreshRef s)]\<rparr>))"
  using assms
  by (simp add: http_get_def fetchWithAuth_def tryRefresh_def call_opt_def Let_def)

lemma http_get_second_401:
  assumes "absent_or_expired P t1 (g s) = Inr True"
    and "MockAPI_refresh P t2 (refreshRef s) = Inr tok"
    and "absent_or_expired P t3 (g (refreshed g url tok s)) = Inr True"
  shows "http_get P g (Some logout) (tryRefresh P) t1 t2 t3 url s =
           (Inr unauthorized,
            logout (refreshed g url tok s
                     \<lparr>calls := calls s @ [FetchWithAuth url (g s), RefreshCall (refreshRef s),
                        FetchWithAuth url (g (refreshed g url tok s))]\<rparr>))"
  using assms
  by (simp add: http_get_def fetchWithAuth_def tryRefresh_def call_opt_def Let_def refreshed_def)

lemma http_get_retry_ok:
  assumes "absent_or_expired P t1 (g s) = Inr True"
    and "MockAPI_refresh P t2 (refreshRef s) = Inr tok"
    and "absent_or_expired P t3 (g (refreshed g url tok s)) = Inr False"
  shows "http_get P g (Some logout) (tryRefresh P) t1 t2 t3 url s =
           (Inr \<lparr>status = 200, body = MockAPI_getSecret url\<rparr>,
            refreshed g url tok s
              \<lparr>calls := calls s @ [FetchWithAuth url (g s), RefreshCall (refreshRef s),
                 FetchWithAuth url (g (refreshed g url tok s)), GetSecretCall url]\<rparr>)"
  using assms
  by (simp add: http_get_def fetchWithAuth_def tryRefresh_def call_opt_def Let_def refreshed_def)

lemma http_get_retry_raises:
  assumes "absent_or_expired P t1 (g s) = Inr True"
    and "MockAPI_refresh P t2 (refreshRef s) = Inr tok"
    and "absent_or_expired P t3 (g (refreshed g url tok s)) = Inl e"
  shows "http_get P g (Some logout) (tryRefresh P) t1 t2 t3 url s =
           (Inl e,
            refreshed g url tok s
              \<lparr>calls := calls s @ [FetchWithAuth url (g s), RefreshCall (refreshRef s),
                 FetchWithAuth url (g (refreshed g url tok s))]\<rparr>)"
  using assms
  by (simp add: http_get_def fetchWithAuth_def tryRefresh_def call_opt_def Let_def refreshed_def)

lemma sum_bool_cases:
  obtains e where "x = Inl e" | "x = Inr True" | "x = Inr False"
  by (cases x) auto

lemma token_2000_expired_3000: "isExpired sample_platform 3000 token_2000 = Inr True"
  by (simp add: isExpired_def decodeJWT_def decodeJWT_try_def token_2000_def sample_platform_def)

text \<open>
  C1, as stated, fails: the session of \<^verbatim>\<open>admin\<close> at second 3000, when its access token
  (\<^verbatim>\<open>exp\<close> 2000) has expired. \<^verbatim>\<open>get\<close> calls the refresh operation of the mock API.
\<close>

theorem provider_get_expired_counterexample:
  "absent_or_expired sample_platform 3000 (accessToken admin_session) = Inr True
   \<and> filter is_refresh
         (calls (snd (provider_get sample_platform 3000 3000 3001 (lit ''/secret'') admin_session)))
       = [RefreshCall (Some (lit ''r1''))]"
proof -
  let ?g = "\<lambda>cur::st. accessToken admin_session"
  have a: "absent_or_expired sample_platform 3000 (?g admin_session) = Inr True"
    using token_2000_expired_3000
    by (simp add: absent_or_expired_def admin_session_def)
  have b: "absent_or_expired sample_platform 3001
             (?g (refreshed ?g (lit ''/secret'') demo_token admin_session)) = Inr True"
    using absent_or_expired_mono [OF a, of 3001] by simp
  have r: "MockAPI_refresh sample_platform 3000 (refreshRef admin_session) = Inr demo_token"
    by (rule sample_refresh) (simp add: refresh_rejects_def admin_session_def)
  have "calls (snd (provider_get sample_platform 3000 3000 3001 (lit ''/secret'') admin_session)) =
          [FetchWithAuth (lit ''/secret'') (Some token_2000), RefreshCall (Some (lit ''r1'')),
           FetchWithAuth (lit ''/secret'') (Some token_2000)]"
    unfolding provider_get_def
    by (simp add: http_get_second_401 [of sample_platform 3000 ?g admin_session, OF a r b] logout_def)
       (simp add: admin_session_def)
  then show ?thesis using a by simp
qed

text \<open>
  C1, amended. When \<^verbatim>\<open>get\<close> starts with an access token that is absent or expired, the
  first attempt is refused without a call of the protected resource and the next call is
  the refresh, which is called exactly once in the whole request. When the mock API
  rejects the refresh token (or the refresh fails otherwise), or the token read for the
  retry is again absent or expired, \<^verbatim>\<open>get\<close> returns the 401 response and the protected
  resource has not been called at all.
\<close>

theorem http_get_refreshes_once:
  assumes "absent_or_expired P t1 (g s) = Inr True"
  shows "\<exists>new. calls (snd (http_get P g (Some logout) (tryRefresh P) t1 t2 t3 url s)) = calls s @ new
           \<and> take 2 new = [FetchWithAuth url (g s), RefreshCall (refreshRef s)]
           \<and> filter is_refresh new = [RefreshCall (refreshRef s)]
           \<and> (refresh_rejects (refreshRef s)
                \<or> (\<exists>e. MockAPI_refresh P t2 (refreshRef s) = Inl e)
                \<or> (\<exists>tok. MockAPI_refresh P t2 (refreshRef s) = Inr tok
                       \<and> absent_or_expired P t3 (g (refreshed g url tok s)) = Inr True) \<longrightarrow>
                fst (http_get P g (Some logout) (tryRefresh P) t1 t2 t3 url s) = Inr unauthorized
                \<and> filter is_getSecret new = [])"
proof (cases "MockAPI_refresh P t2 (refreshRef s)")
  case (Inl e)
  show ?thesis
    by (simp add: http_get_refresh_failed [of P t1 g s, OF assms Inl] logout_def)
next
  case (Inr tok)
  then have nr: "\<not> refresh_rejects (refreshRef s)"
    by (auto dest: refresh_rejects_fails [of _ P t2])
  show ?thesis
  proof (cases "absent_or_expired P t3 (g (refreshed g url tok s))" rule: sum_bool_cases)
    case (1 e)
    show ?thesis
      by (simp add: http_get_retry_raises [of P t1 g s, OF assms Inr 1] nr Inr 1)
  next
    case 2
    show ?thesis
      by (simp add: http_get_second_401 [of P t1 g s, OF assms Inr 2] logout_def refreshed_def)
  next
    case 3
    show ?thesis
      by (simp add: http_get_retry_ok [of P t1 g s, OF assms Inr 3] nr Inr 3)
  qed
qed

theorem http_get_refreshes_once_witness:
  "absent_or_expired sample_platform 3000 None = Inr True
   \<and> MockAPI_refresh sample_platform 3000 (Some (lit ''r1'')) = Inr demo_token
   \<and> filter is_refresh
        (calls (snd (provider_get sample_platform 3000 3000 3001 (lit ''/secret'')
                       (admin_session\<lparr>accessToken := None\<rparr>)))) = [RefreshCall (Some (lit ''r1''))]
   \<and> fst (provider_get sample_platform 3000 3000 3001 (lit ''/secret'')
              (admin_session\<lparr>accessToken := None\<rparr>)) = Inr unauthorized
   \<and> refresh_rejects (Some (lit ''x1''))
   \<and> fst (provider_get sample_platform 3000 3000 3001 (lit ''/secret'')
              (admin_session\<lparr>accessToken := None, refreshRef := Some (lit ''x1'')\<rparr>)) =
       Inr unauthorized
   \<and> filter is_getSecret
        (calls (snd (provider_get sample_platform 3000 3000 3001 (lit ''/secret'')
                       (admin_session\<lparr>accessToken := None, refreshRef := Some (lit ''x1'')\<rparr>)))) = []"
proof -
  have a: "absent_or_expired sample_platform t None = Inr True" for t
    by (simp add: absent_or_expired_def)
  have r: "refresh_rejects (Some (lit ''x1''))"
    by (simp add: refresh_rejects_def)
  have r': "MockAPI_refresh sample_platform 3000 (Some (lit ''r1'')) = Inr demo_token"
    by (rule sample_refresh) (simp add: refresh_rejects_def)
  show ?thesis
    using a r r'
      http_get_refreshes_once [of sample_platform 3000
        "\<lambda>cur. accessToken (admin_session\<lparr>accessToken := None\<rparr>)"
        "admin_session\<lparr>accessToken := None\<rparr>" 3000 3001 "lit ''/secret''"]
      http_get_refreshes_once [of sample_platform 3000
        "\<lambda>cur. accessToken (admin_session\<lparr>accessToken := None, refreshRef := Some (lit ''x1'')\<rparr>)"
        "admin_session\<lparr>accessToken := None, refreshRef := Some (lit ''x1'')\<rparr>" 3000 3001
        "lit ''/secret''"]
    by (auto simp: provider_get_def admin_session_def)
qed

text \<open>
  C4. In one \<^verbatim>\<open>get\<close> the refresh operation is called at most once and \<^verbatim>\<open>fetchWithAuth\<close> at
  most twice (the protected resource at most once). When the first attempt is refused,
  the refresh succeeds and the retry is refused again, the result is that second 401 and
  the request ends there: its trace is the first attempt, the refresh and the retry.
\<close>

theorem http_get_bounded:
  "\<exists>new. calls (snd (http_get P g (Some logout) (tryRefresh P) t1 t2 t3 url s)) = calls s @ new
     \<and> length (filter is_refresh new) \<le> 1
     \<and> length (filter is_fetch new) \<le> 2
     \<and> length (filter is_getSecret new) \<le> 1
     \<and> (\<forall>tok. absent_or_expired P t1 (g s) = Inr True
          \<and> MockAPI_refresh P t2 (refreshRef s) = Inr tok
          \<and> absent_or_expired P t3 (g (refreshed g url tok s)) = Inr True \<longrightarrow>
          fst (http_get P g (Some logout) (tryRefresh P) t1 t2 t3 url s) = Inr unauthorized
          \<and> new = [FetchWithAuth url (g s), RefreshCall (refreshRef s),
                    FetchWithAuth url (g (refreshed g url tok s))])"
proof (cases "absent_or_expired P t1 (g s)" rule: sum_bool_cases)
  case (1 e)
  show ?thesis by (simp add: http_get_raises [of P t1 g s, OF 1] 1)
next
  case 3
  show ?thesis by (simp add: http_get_valid [of P t1 g s, OF 3] 3)
next
  case a: 2
  show ?thesis
  proof (cases "MockAPI_refresh P t2 (refreshRef s)")
    case (Inl e)
    show ?thesis by (simp add: http_get_refresh_failed [of P t1 g s, OF a Inl] logout_def Inl)
  next
    case (Inr tok)
    show ?thesis
    proof (cases "absent_or_expired P t3 (g (refreshed g url tok s))" rule: sum_bool_cases)
      case (1 e)
      show ?thesis by (simp add: http_get_retry_raises [of P t1 g s, OF a Inr 1] Inr 1)
    next
      case 2
      show ?thesis by (simp add: http_get_second_401 [of P t1 g s, OF a Inr 2] logout_def Inr)
    next
      case 3
      show ?thesis by (simp add: http_get_retry_ok [of P t1 g s, OF a Inr 3] Inr 3)
    qed
  qed
qed

theorem http_get_bounded_witness:
  "absent_or_expired sample_platform 3000 (Some token_2000) = Inr True
   \<and> MockAPI_refresh sample_platform 3000 (Some (lit ''r1'')) = Inr demo_token
   \<and> fst (provider_get sample_platform 3000 3000 3001 (lit ''/secret'') admin_session) =
       Inr unauthorized
   \<and> calls (snd (provider_get sample_platform 3000 3000 3001 (lit ''/secret'') admin_session)) =
       [FetchWithAuth (lit ''/secret'') (Some token_2000), RefreshCall (Some (lit ''r1'')),
        FetchWithAuth (lit ''/secret'') (Some token_2000)]"
proof -
  have a: "absent_or_expired sample_platform 3000 (Some token_2000) = Inr True"
    using token_2000_expired_3000 by (simp add: absent_or_expired_def)
  have b: "absent_or_expired sample_platform 3001 (Some token_2000) = Inr True"
    using absent_or_expired_mono [OF a, of 3001] by simp
  have r: "MockAPI_refresh sample_platform 3000 (Some (lit ''r1'')) = Inr demo_token"
    by (rule sample_refresh) (simp add: refresh_rejects_def)
  show ?thesis
    using a b r
      http_get_bounded [of sample_platform "\<lambda>cur. accessToken admin_session" 3000 3000 3001
        "lit ''/secret''" admin_session]
    by (auto simp: provider_get_def admin_session_def)
qed

text \<open>
  With the \<^verbatim>\<open>getAccessToken\<close> of \<^verbatim>\<open>AuthProvider\<close> the retry reads the token the call started
  with, not the refreshed one: on a clock that does not run backwards it is refused as the
  first attempt was, whatever the refresh returned.
\<close>

lemma provider_get_without_token:
  assumes "absent_or_expired P t1 (accessToken s) = Inr True" and "t1 \<le> t3"
  shows "fst (provider_get P t1 t2 t3 url s) = Inr unauthorized
       \<and> user (snd (provider_get P t1 t2 t3 url s)) = None
       \<and> filter is_getSecret (calls (snd (provider_get P t1 t2 t3 url s))) =
           filter is_getSecret (calls s)"
proof (cases "MockAPI_refresh P t2 (refreshRef s)")
  case (Inl e)
  show ?thesis
    unfolding provider_get_def
    by (simp add: http_get_refresh_failed
          [of P t1 "\<lambda>cur. accessToken s" s, OF assms(1) Inl] logout_def)
next
  case (Inr tok)
  have "absent_or_expired P t3 (accessToken s) = Inr True"
    using assms by (rule absent_or_expired_mono)
  then show ?thesis
    unfolding provider_get_def
    by (simp add: http_get_second_401
          [of P t1 "\<lambda>cur. accessToken s" s, OF assms(1) Inr] logout_def)
qed

section \<open>Token inspection\<close>

lemma split_on_no_sep: "d \<notin> set xs \<Longrightarrow> split_on d xs = [xs]"
  by (induction xs) auto

lemma split_on_append: "d \<notin> set xs \<Longrightarrow> split_on d (xs @ d # ys) = xs # split_on d ys"
  by (induction xs) auto

lemma split_on_token:
  fixes b :: jsstring
  assumes "of_char (CHR ''.'') \<notin> set b"
  shows "split_on (of_char (CHR ''.'')) (lit ''header.'' @ b @ lit ''.signature'') =
           [lit ''header'', b, lit ''signature'']"
proof -
  let ?d = "of_char (CHR ''.'') :: 16 word"
  have "split_on ?d (lit ''header'' @ ?d # (b @ ?d # lit ''signature'')) =
          lit ''header'' # split_on ?d (b @ ?d # lit ''signature'')"
    by (rule split_on_append) simp
  moreover have "split_on ?d (b @ ?d # lit ''signature'') = b # split_on ?d (lit ''signature'')"
    using assms by (rule split_on_append)
  moreover have "split_on ?d (lit ''signature'') = [lit ''signature'']"
    by (rule split_on_no_sep) simp
  ultimately show ?thesis by simp
qed

lemma decodeJWT_make_token:
  assumes "codec_ok P v"
  shows "make_token P v = Inr (lit ''header.'' @ btoa P (JSON_stringify P v) @ lit ''.signature'')"
    and "decodeJWT P (lit ''header.'' @ btoa P (JSON_stringify P v) @ lit ''.signature'') = v"
proof -
  let ?b = "btoa P (JSON_stringify P v)"
  from assms have l: "latin1 (JSON_stringify P v)"
    and p: "JSON_parse P (JSON_stringify P v) = Some v"
    and a: "atob P ?b = Some (JSON_stringify P v)"
    and nd: "of_char (CHR ''.'') \<notin> set ?b"
    by (simp_all add: codec_ok_def)
  show "make_token P v = Inr (lit ''header.'' @ ?b @ lit ''.signature'')"
    using l by (simp add: make_token_def btoa_call_def)
  have "split_on (of_char (CHR ''.'')) (lit ''header.'' @ ?b @ lit ''.signature'') =
          [lit ''header'', ?b, lit ''signature'']"
    by (rule split_on_token [OF nd])
  then show "decodeJWT P (lit ''header.'' @ ?b @ lit ''.signature'') = v"
    using p a by (simp only: decodeJWT_def decodeJWT_try_def) simp
qed

lemma isExpired_cases:
  "isExpired P now T =
     (case get_prop (lit ''exp'') (decodeJWT P T) of
        None \<Rightarrow> Inr True
      | Some e \<Rightarrow>
          if \<not> truthy e then Inr True
          else (case ToNumber P e of
                  Inl err \<Rightarrow> Inl err
                | Inr n \<Rightarrow> Inr (js_le n (Finite (of_int now)))))"
  by (simp only: isExpired_def Let_def)

text \<open>
  What \<^verbatim>\<open>isExpired\<close> does on the tokens the claim is met on. \<^verbatim>\<open>decodeJWT\<close> returns \<^verbatim>\<open>null\<close>
  when its body throws, as it does on a token without a dot; \<^verbatim>\<open>isExpired\<close> is true when
  the decoded value is \<^verbatim>\<open>null\<close> or has no \<^verbatim>\<open>exp\<close>; when \<^verbatim>\<open>exp\<close> is a number \<open>n\<close> it is true
  exactly when \<open>n\<close> is 0 or at most \<open>now\<close>, so with the clock at or after the epoch exactly
  when \<open>n \<le> now\<close>, and false exactly when \<open>n > now\<close>.
\<close>

lemma isExpired_numeric:
  "(decodeJWT_try P T = None \<longrightarrow> decodeJWT P T = JNull)
   \<and> (of_char (CHR ''.'') \<notin> set T \<longrightarrow> decodeJWT P T = JNull)
   \<and> (decodeJWT P T = JNull \<or> get_prop (lit ''exp'') (decodeJWT P T) = None \<longrightarrow>
        isExpired P now T = Inr True)
   \<and> (get_prop (lit ''exp'') (decodeJWT P T) = Some (JNum n) \<and> n \<noteq> NaN \<longrightarrow>
        isExpired P now T = Inr (n = Finite 0 \<or> js_le n (Finite (of_int now))))
   \<and> (get_prop (lit ''exp'') (decodeJWT P T) = Some (JNum n) \<and> n \<noteq> NaN \<and> 0 \<le> now \<longrightarrow>
        isExpired P now T = Inr (js_le n (Finite (of_int now)))
        \<and> (isExpired P now T = Inr False) = js_gt n (Finite (of_int now)))"
proof -
  have d: "decodeJWT_try P T = None \<longrightarrow> decodeJWT P T = JNull"
    by (simp add: decodeJWT_def)
  have nd: "of_char (CHR ''.'') \<notin> set T \<longrightarrow> decodeJWT P T = JNull"
    by (simp add: decodeJWT_def decodeJWT_try_def split_on_no_sep)
  have e: "decodeJWT P T = JNull \<or> get_prop (lit ''exp'') (decodeJWT P T) = None \<longrightarrow>
             isExpired P now T = Inr True"
    by (auto simp: isExpired_cases)
  have n1: "get_prop (lit ''exp'') (decodeJWT P T) = Some (JNum n) \<and> n \<noteq> NaN \<longrightarrow>
             isExpired P now T = Inr (n = Finite 0 \<or> js_le n (Finite (of_int now)))"
    by (auto simp: isExpired_cases)
  have n2: "get_prop (lit ''exp'') (decodeJWT P T) = Some (JNum n) \<and> n \<noteq> NaN \<and> 0 \<le> now \<longrightarrow>
             isExpired P now T = Inr (js_le n (Finite (of_int now)))
             \<and> (isExpired P now T = Inr False) = js_gt n (Finite (of_int now))"
    by (cases n) (auto simp: isExpired_cases)
  from d nd e n1 n2 show ?thesis by blast
qed

text \<open>
  An \<^verbatim>\<open>exp\<close> that is an object with a key \<^verbatim>\<open>toString\<close> has no primitive value: the
  comparison throws and \<^verbatim>\<open>isExpired\<close> with it.
\<close>

lemma isExpired_raises:
  assumes "get_prop (lit ''exp'') (decodeJWT P T) = Some (JObj kvs)"
    and "map_of kvs (lit ''toString'') = Some v"
  shows "isExpired P now T = Inl TypeError"
  using assms by (simp add: isExpired_cases)

text \<open>
  C7, on the code: \<^verbatim>\<open>isExpired\<close> compares \<^verbatim>\<open>p.exp <= now\<close> without testing that \<^verbatim>\<open>exp\<close> is a
  number. The token whose payload is \<^verbatim>\<open>{"exp":"never"}\<close> decodes to claims with an \<^verbatim>\<open>exp\<close>
  field; \<^verbatim>\<open>"never" <= now\<close> is false at every time, so \<^verbatim>\<open>isExpired\<close> is false of it at every
  time, although its \<^verbatim>\<open>exp\<close> is not greater than \<open>now\<close>, and \<^verbatim>\<open>RequireAuth\<close> lets a session
  holding it through. \<^verbatim>\<open>validateToken\<close> of the protected-route demo, which tests
  \<^verbatim>\<open>data.exp > now\<close>, refuses the same token.
\<close>

theorem isExpired_never_token:
  "decodeJWT sample_platform token_never = JObj [(lit ''exp'', JStr (lit ''never''))]
   \<and> isExpired sample_platform now token_never = Inr False
   \<and> ToNumber sample_platform (JStr (lit ''never'')) = Inr NaN
   \<and> \<not> js_gt NaN (Finite (of_int now))
   \<and> validateToken sample_platform now token_never = Inr False
   \<and> RequireAuth sample_platform now (lit ''/admin'')
        (admin_session\<lparr>accessToken := Some token_never\<rparr>) = Inr Outlet"
proof -
  have d: "decodeJWT sample_platform token_never = JObj [(lit ''exp'', JStr (lit ''never''))]"
    by (simp add: decodeJWT_def decodeJWT_try_def token_never_def sample_platform_def)
  have n: "StringToNumber sample_platform (lit ''never'') = NaN"
    by (simp add: sample_platform_def)
  have i: "isExpired sample_platform now token_never = Inr False"
    using n by (simp add: isExpired_cases d)
  have v: "validateToken sample_platform now token_never = Inr False"
    using n by (simp add: validateToken_def d)
  have t: "token_never \<noteq> []"
    by (simp add: token_never_def)
  have r: "RequireAuth sample_platform now (lit ''/admin'')
             (admin_session\<lparr>accessToken := Some token_never\<rparr>) = Inr Outlet"
    by (simp add: RequireAuth_def absent_or_expired_def i t) (simp add: admin_session_def)
  from d i v r n show ?thesis by simp
qed

section \<open>The claims of a refreshed token\<close>

text \<open>
  C9. For a refresh token that \<^verbatim>\<open>MockAPI.refresh\<close> accepts, on a platform that encodes and
  decodes the payload faithfully, the returned access token decodes to \<^verbatim>\<open>sub\<close> 1, \<^verbatim>\<open>name\<close>
  \<^verbatim>\<open>demo\<close>, \<^verbatim>\<open>roles\<close> \<^verbatim>\<open>["USER"]\<close> and \<^verbatim>\<open>exp\<close> \<open>now + 60\<close>. Every accepted refresh token gives
  that same token, whoever logged in. After \<^verbatim>\<open>tryRefresh\<close> in a session whose user has other
  roles than \<^verbatim>\<open>["USER"]\<close>, the user is unchanged and the roles in the token differ from the
  user's.
\<close>

theorem MockAPI_refresh_claims:
  assumes "\<not> refresh_rejects rt"
    and "codec_ok P (claims 1 (lit ''demo'') [lit ''USER''] (now + 60))"
  shows "\<exists>tok. MockAPI_refresh P now rt = Inr tok
           \<and> decodeJWT P tok =
               JObj [(lit ''sub'', JNum (Finite 1)), (lit ''name'', JStr (lit ''demo'')),
                     (lit ''roles'', JArr [JStr (lit ''USER'')]),
                     (lit ''exp'', JNum (Finite (of_int (now + 60))))]
           \<and> (\<forall>rt'. \<not> refresh_rejects rt' \<longrightarrow> MockAPI_refresh P now rt' = Inr tok)
           \<and> (\<forall>s u. refreshRef s = rt \<and> user s = Some u \<and> roles u \<noteq> [lit ''USER''] \<longrightarrow>
                 tryRefresh P now s =
                   (True, s\<lparr>calls := calls s @ [RefreshCall rt], accessToken := Some tok\<rparr>)
                 \<and> get_prop (lit ''roles'') (decodeJWT P tok) = Some (JArr (map JStr [lit ''USER'']))
                 \<and> JArr (map JStr (roles u)) \<noteq> JArr (map JStr [lit ''USER'']))"
proof (intro exI conjI allI impI)
  let ?c = "claims 1 (lit ''demo'') [lit ''USER''] (now + 60)"
  let ?tok = "lit ''header.'' @ btoa P (JSON_stringify P ?c) @ lit ''.signature''"
  have m: "make_token P ?c = Inr ?tok"
    by (rule decodeJWT_make_token(1) [OF assms(2)])
  show r: "MockAPI_refresh P now rt = Inr ?tok"
    using assms(1) m by (simp only: MockAPI_refresh_def if_False)
  have d: "decodeJWT P ?tok = ?c"
    by (rule decodeJWT_make_token(2) [OF assms(2)])
  show "decodeJWT P ?tok =
               JObj [(lit ''sub'', JNum (Finite 1)), (lit ''name'', JStr (lit ''demo'')),
                     (lit ''roles'', JArr [JStr (lit ''USER'')]),
                     (lit ''exp'', JNum (Finite (of_int (now + 60))))]"
    by (subst d) (simp add: claims_def)
  show "MockAPI_refresh P now rt' = Inr ?tok" if "\<not> refresh_rejects rt'" for rt'
    using that m by (simp only: MockAPI_refresh_def if_False)
  fix s :: st and u :: user_t
  assume h: "refreshRef s = rt \<and> user s = Some u \<and> roles u \<noteq> [lit ''USER'']"
  show "tryRefresh P now s =
          (True, s\<lparr>calls := calls s @ [RefreshCall rt], accessToken := Some ?tok\<rparr>)"
    using h r by (simp add: tryRefresh_def)
  show "get_prop (lit ''roles'') (decodeJWT P ?tok) = Some (JArr (map JStr [lit ''USER'']))"
    by (subst d) (simp add: claims_def)
  show "JArr (map JStr (roles u)) \<noteq> JArr (map JStr [lit ''USER''])"
    using h by (auto simp: map_eq_Cons_conv)
qed

theorem MockAPI_refresh_claims_witness:
  "\<not> refresh_rejects (Some (lit ''r1''))
   \<and> codec_ok sample_platform (claims 1 (lit ''demo'') [lit ''USER''] (3000 + 60))
   \<and> (\<exists>tok. MockAPI_refresh sample_platform 3000 (Some (lit ''r1'')) = Inr tok
          \<and> decodeJWT sample_platform tok =
              JObj [(lit ''sub'', JNum (Finite 1)), (lit ''name'', JStr (lit ''demo'')),
                    (lit ''roles'', JArr [JStr (lit ''USER'')]), (lit ''exp'', JNum (Finite 3060))]
          \<and> tryRefresh sample_platform 3000 admin_session =
              (True, admin_session\<lparr>calls := [RefreshCall (Some (lit ''r1''))],
                                   accessToken := Some tok\<rparr>)
          \<and> get_prop (lit ''roles'') (decodeJWT sample_platform tok) =
              Some (JArr [JStr (lit ''USER'')])
          \<and> roles admin_user = [lit ''ADMIN'', lit ''USER''])"
proof -
  have r: "\<not> refresh_rejects (Some (lit ''r1''))"
    by (simp add: refresh_rejects_def)
  have c: "codec_ok sample_platform (claims 1 (lit ''demo'') [lit ''USER''] (3000 + 60))"
    by (simp add: codec_ok_def sample_platform_def demo_text_latin1)
       (simp add: demo_claims_b64_def demo_claims_text_def)
  from MockAPI_refresh_claims [OF r c]
  obtain tok where t: "MockAPI_refresh sample_platform 3000 (Some (lit ''r1'')) = Inr tok"
    and d: "decodeJWT sample_platform tok =
              JObj [(lit ''sub'', JNum (Finite 1)), (lit ''name'', JStr (lit ''demo'')),
                    (lit ''roles'', JArr [JStr (lit ''USER'')]),
                    (lit ''exp'', JNum (Finite (of_int (3000 + 60))))]"
    and u: "\<forall>s u. refreshRef s = Some (lit ''r1'') \<and> user s = Some u \<and> roles u \<noteq> [lit ''USER''] \<longrightarrow>
              tryRefresh sample_platform 3000 s =
                (True, s\<lparr>calls := calls s @ [RefreshCall (Some (lit ''r1''))],
                         accessToken := Some tok\<rparr>)
              \<and> get_prop (lit ''roles'') (decodeJWT sample_platform tok) =
                  Some (JArr (map JStr [lit ''USER'']))
              \<and> JArr (map JStr (roles u)) \<noteq> JArr (map JStr [lit ''USER''])"
    by blast
  have "refreshRef admin_session = Some (lit ''r1'') \<and> user admin_session = Some admin_user
        \<and> roles admin_user \<noteq> [lit ''USER'']"
    by (simp add: admin_session_def admin_user_def)
  with u have "tryRefresh sample_platform 3000 admin_session =
                (True, admin_session\<lparr>calls := calls admin_session @ [RefreshCall (Some (lit ''r1''))],
                                     accessToken := Some tok\<rparr>)
              \<and> get_prop (lit ''roles'') (decodeJWT sample_platform tok) =
                  Some (JArr (map JStr [lit ''USER'']))"
    by blast
  then show ?thesis
    using r c t d by (auto simp: admin_session_def admin_user_def)
qed

section \<open>The route guards while the session loads\<close>

text \<open>
  C3, as stated, fails: in the first render (\<^verbatim>\<open>loading\<close> true, no user) the role gate for
  \<^verbatim>\<open>ADMIN\<close> renders the redirect to \<^verbatim>\<open>/403\<close>, not the loading screen.
\<close>

theorem RequireRoles_loading_counterexample:
  "loading initial_session
   \<and> RequireRoles (Some [lit ''ADMIN'']) initial_session = Navigate (lit ''/403'') None"
  by (simp add: RequireRoles_def hasAnyRole_def initial_session_def)

lemma hasAnyRole_loading: "hasAnyRole (s\<lparr>loading := b\<rparr>) rs = hasAnyRole s rs"
  by (cases rs) (simp_all add: hasAnyRole_def)

text \<open>
  C3, amended. While \<^verbatim>\<open>loading\<close> is true, \<^verbatim>\<open>RequireAuth\<close> renders the loading screen: neither
  a redirect nor the outlet. \<^verbatim>\<open>RequireRoles\<close> does not read \<^verbatim>\<open>loading\<close>: it renders what it
  renders once loading is over, the outlet when \<^verbatim>\<open>hasAnyRole\<close> holds and the redirect to
  \<^verbatim>\<open>/403\<close> otherwise.
\<close>

theorem guards_while_loading:
  assumes "loading s"
  shows "RequireAuth P now location s = Inr (ScreenMsg loading_msg)
       \<and> RequireRoles rs s = RequireRoles rs (s\<lparr>loading := False\<rparr>)
       \<and> RequireRoles rs s = (if hasAnyRole s rs then Outlet else Navigate (lit ''/403'') None)"
  using assms by (simp add: RequireAuth_def RequireRoles_def hasAnyRole_loading)

theorem guards_while_loading_witness:
  "loading initial_session
   \<and> RequireAuth sample_platform 1000 (lit ''/admin'') initial_session = Inr (ScreenMsg loading_msg)
   \<and> RequireRoles (Some []) initial_session = Outlet"
  using guards_while_loading [of initial_session sample_platform 1000 "lit ''/admin''" "Some []"]
  by (simp add: initial_session_def RequireRoles_def hasAnyRole_def)

section \<open>Logout\<close>

lemma logout_click_store:
  "localStorage (logout_click s) (lit ''demo_auth'') =
     (if user s = None \<and> accessToken s = None then None else Some (None, None, None))"
  by (simp add: logout_click_def commit_def logout_def persist_effect_def)

lemma logout_click_session:
  "user (logout_click s) = None \<and> accessToken (logout_click s) = None
   \<and> refreshRef (logout_click s) = None"
  by (simp add: logout_click_def commit_def logout_def persist_effect_def)

text \<open>
  C2, on the code: \<^verbatim>\<open>logout\<close> empties the session and removes the snapshot, but the setters
  make the provider render again, and the persist effect then stores the snapshot of the
  empty session. After a click on Logout in the session of \<^verbatim>\<open>admin\<close> the three fields are
  absent and \<^verbatim>\<open>demo_auth\<close> is present, holding three absent fields; a second click, which
  changes no state and so runs no effect, removes it.
\<close>

theorem logout_click_leaves_snapshot:
  "localStorage (logout admin_session) (lit ''demo_auth'') = None
   \<and> user (logout_click admin_session) = None
   \<and> accessToken (logout_click admin_session) = None
   \<and> refreshRef (logout_click admin_session) = None
   \<and> localStorage (logout_click admin_session) (lit ''demo_auth'') = Some (None, None, None)
   \<and> localStorage (logout_click (logout_click admin_session)) (lit ''demo_auth'') = None"
  using logout_click_store [of admin_session] logout_click_session [of admin_session]
    logout_click_store [of "logout_click admin_session"]
  by (simp add: logout_def admin_session_def)

end
